theory Spec2Isabelle
  imports Main
begin

section \<open>The AuthManager of src/auth.js\<close>

text \<open>
  The class \<open>AuthManager\<close> keeps one OAuth2 token in four fields and mirrors it in a
  token storage. Its methods are asynchronous: they talk to the authorization server and
  to the data API through axios. The embedding makes every effect explicit:
  \<^item> the fields of the object are a record \<open>AuthManager\<close>, passed in and returned;
  \<^item> everything outside the object (the clock, the two remote servers, the list of
    requests that left the process, the events emitted) is a record \<open>world\<close>;
  \<^item> an exception is the left summand of the result.

  The constructor, \<open>loadTokens\<close> and \<open>getAuthorizationUrl\<close> are not modelled, and
  neither is the logger. JavaScript's \<open>null\<close> and \<open>undefined\<close> are both \<open>None\<close>. Times are integers, the
  milliseconds since the epoch that a \<open>Date\<close> holds; the range in which a \<open>Date\<close> is
  valid is not modelled. A lifetime reported by the provider is an integer number of
  seconds.
\<close>

subsection \<open>Data\<close>

text \<open>The body of a successful answer of the token endpoint (\<open>response.data\<close>).\<close>

record tokenData =
  access_token :: "string option"
  refresh_token :: "string option"
  expires_in :: "int option"

text \<open>The object handed to \<open>tokenStorage.saveTokens\<close>; \<open>expiresAt\<close> is the ISO string of
  the expiry, represented by the time it denotes.\<close>

record TokenRecord =
  stored_accessToken :: "string option"
  stored_refreshToken :: "string option"
  expiresAt :: int

text \<open>The part of the configuration that the methods read, with \<open>getApiEndpoints\<close> of
  src/config.js: the token and the refresh endpoint are both \<open>authUrl/token\<close>.\<close>

record config =
  clientId :: string
  clientSecret :: string
  callbackUrl :: string
  authUrl :: string

definition endpoint_token :: "config \<Rightarrow> string" where
  "endpoint_token c = authUrl c @ ''/token''"

definition endpoint_refresh :: "config \<Rightarrow> string" where
  "endpoint_refresh c = authUrl c @ ''/token''"

text \<open>
  Modelled from the spec: the class \<open>TokenStorage\<close> (src/utils/tokenStorage.js) is not
  among the sources. The spec describes it as storage of exactly one record:
  \<open>getTokens\<close> returns the record or an explicit absent value, \<open>saveTokens\<close> persists the
  record, \<open>clearTokens\<close> removes it and is idempotent. It is the field \<open>tokenStorage\<close>
  below, an optional record, with the three operations that follow.
\<close>

record AuthManager =
  cfg :: config
  accessToken :: "string option"
  refreshToken :: "string option"
  tokenExpiry :: "int option"
  isAuthenticated :: bool
  tokenStorage :: "TokenRecord option"

definition storage_getTokens :: "AuthManager \<Rightarrow> TokenRecord option" where
  "storage_getTokens s = tokenStorage s"

definition storage_saveTokens :: "TokenRecord \<Rightarrow> AuthManager \<Rightarrow> AuthManager" where
  "storage_saveTokens r s = s\<lparr>tokenStorage := Some r\<rparr>"

definition storage_clearTokens :: "AuthManager \<Rightarrow> AuthManager" where
  "storage_clearTokens s = s\<lparr>tokenStorage := None\<rparr>"

text \<open>The options of a data request and the response to one.\<close>

record options =
  req_method :: string
  req_url :: string
  req_headers :: "(string \<times> string) list"
  req_body :: string

record api_response =
  resp_status :: nat
  resp_data :: string

text \<open>What leaves the process: \<open>axios.post(url, form)\<close> to the authorization server, or
  \<open>axios(options)\<close> to the data API.\<close>

datatype request =
  Post string "(string \<times> string) list"
  | Call options

text \<open>
  How axios settles a call: a 2xx response resolves the promise; any other status
  rejects it with an error whose \<open>response\<close> holds the status and the body; a failure
  without a response rejects it with an error that only has a message.
\<close>

datatype 'a reply =
  Resolved 'a
  | Rejected nat string
  | Failed string

text \<open>The exceptions: \<open>new Error(message)\<close> made by the class itself, and the two kinds
  of axios error, passed on as they are. src/auth.js declares no error class of its
  own: what the spec calls an AuthenticationError is here an \<open>Error\<close> told apart by its
  message.\<close>

datatype err =
  Error string
  | HttpError nat string
  | NetworkError string

text \<open>
  The world: the clock, the answers the two servers are going to give (each with the
  time the call takes, in milliseconds), the requests sent so far in the order they were
  sent, and the events emitted so far. A call that finds no answer left fails without a
  response.
\<close>

record world =
  clock :: int
  token_endpoint :: "(nat \<times> tokenData reply) list"
  api :: "(nat \<times> api_response reply) list"
  sent :: "request list"
  emitted :: "string list"

type_synonym 'a outcome = "(err + 'a) \<times> AuthManager \<times> world"

subsection \<open>JavaScript's truthiness\<close>

text \<open>\<open>!v\<close> on a string or null: null, undefined and the empty string are falsy.\<close>

definition truthy :: "string option \<Rightarrow> bool" where
  "truthy v = (case v of None \<Rightarrow> False | Some x \<Rightarrow> x \<noteq> [])"

text \<open>\<open>a || b\<close> on such values.\<close>

definition js_or :: "string option \<Rightarrow> string option \<Rightarrow> string option" where
  "js_or a b = (if truthy a then a else b)"

text \<open>\<open>n || d\<close> on a number or undefined: undefined and 0 are falsy.\<close>

definition num_or :: "int option \<Rightarrow> int \<Rightarrow> int" where
  "num_or n d = (case n of None \<Rightarrow> d | Some k \<Rightarrow> if k = 0 then d else k)"


text \<open>A template literal prints an absent value as \<open>undefined\<close>.\<close>

definition js_string :: "string option \<Rightarrow> string" where
  "js_string v = (case v of None \<Rightarrow> ''undefined'' | Some x \<Rightarrow> x)"

subsection \<open>The network\<close>

text \<open>A call to axios first hands the request over (\<open>axios_send\<close>); the caller is
  suspended at its \<open>await\<close> until the answer is there (\<open>await_token\<close>, \<open>await_api\<close>),
  and the clock has advanced by then.\<close>

definition axios_send :: "request \<Rightarrow> world \<Rightarrow> world" where
  "axios_send r w = w\<lparr>sent := sent w @ [r]\<rparr>"

definition await_token :: "world \<Rightarrow> tokenData reply \<times> world" where
  "await_token w =
     (case token_endpoint w of
        [] \<Rightarrow> (Failed ''no response'', w)
      | (d, r) # rest \<Rightarrow> (r, w\<lparr>clock := clock w + int d, token_endpoint := rest\<rparr>))"

definition await_api :: "world \<Rightarrow> api_response reply \<times> world" where
  "await_api w =
     (case api w of
        [] \<Rightarrow> (Failed ''no response'', w)
      | (d, r) # rest \<Rightarrow> (r, w\<lparr>clock := clock w + int d, api := rest\<rparr>))"

definition emit :: "string \<Rightarrow> world \<Rightarrow> world" where
  "emit e w = w\<lparr>emitted := emitted w @ [e]\<rparr>"

subsection \<open>saveTokens, clearTokens, isTokenExpired\<close>

definition saveTokens :: "tokenData \<Rightarrow> AuthManager \<Rightarrow> world \<Rightarrow> AuthManager" where
  "saveTokens tokenData s w =
     (let at = access_token tokenData;
          rt = js_or (refresh_token tokenData) (refreshToken s);
          expiresIn = num_or (expires_in tokenData) 3600;
          expiry = clock w + (expiresIn - 300) * 1000
      in storage_saveTokens
           \<lparr>stored_accessToken = at, stored_refreshToken = rt, expiresAt = expiry\<rparr>
           (s\<lparr>accessToken := at, refreshToken := rt, tokenExpiry := Some expiry,
              isAuthenticated := True\<rparr>))"

definition clearTokens :: "AuthManager \<Rightarrow> world \<Rightarrow> AuthManager \<times> world" where
  "clearTokens s w =
     (storage_clearTokens
        (s\<lparr>accessToken := None, refreshToken := None, tokenExpiry := None,
           isAuthenticated := False\<rparr>),
      emit ''logout'' w)"

definition isTokenExpired :: "AuthManager \<Rightarrow> world \<Rightarrow> bool" where
  "isTokenExpired s w =
     (case tokenExpiry s of None \<Rightarrow> True | Some e \<Rightarrow> clock w \<ge> e)"

subsection \<open>handleCallback\<close>

definition code_form :: "config \<Rightarrow> string \<Rightarrow> (string \<times> string) list" where
  "code_form c code =
     [(''grant_type'', ''authorization_code''), (''code'', code),
      (''client_id'', clientId c), (''client_secret'', clientSecret c),
      (''redirect_uri'', callbackUrl c)]"

definition handleCallback :: "string \<Rightarrow> AuthManager \<Rightarrow> world \<Rightarrow> bool outcome" where
  "handleCallback code s w =
     (let w1 = axios_send (Post (endpoint_token (cfg s)) (code_form (cfg s) code)) w;
          (r, w2) = await_token w1
      in case r of
           Resolved tokenData \<Rightarrow> (Inr True, saveTokens tokenData s w2, emit ''authenticated'' w2)
         | Rejected st payload \<Rightarrow> (Inl (Error ''Authentication failed''), s, w2)
         | Failed msg \<Rightarrow> (Inl (Error ''Authentication failed''), s, w2))"

subsection \<open>refreshAccessToken\<close>

definition refresh_form :: "AuthManager \<Rightarrow> (string \<times> string) list" where
  "refresh_form s =
     [(''grant_type'', ''refresh_token''), (''refresh_token'', js_string (refreshToken s)),
      (''client_id'', clientId (cfg s)), (''client_secret'', clientSecret (cfg s))]"

definition refresh_request :: "AuthManager \<Rightarrow> request" where
  "refresh_request s = Post (endpoint_refresh (cfg s)) (refresh_form s)"

text \<open>The rest of \<open>refreshAccessToken\<close> once axios has settled the call: the lines after
  the \<open>await\<close> and the \<open>catch\<close> block. The catch block clears the tokens whatever the
  error was. It calls \<open>clearTokens\<close> without awaiting it: the four fields are cleared
  and the storage is told to clear before the error is thrown, and the event \<open>logout\<close>
  follows once the storage is done. The model runs \<open>clearTokens\<close> to its end.\<close>

definition refresh_settled :: "tokenData reply \<Rightarrow> AuthManager \<Rightarrow> world \<Rightarrow> bool outcome" where
  "refresh_settled r s w =
     (case r of
        Resolved tokenData \<Rightarrow> (Inr True, saveTokens tokenData s w, emit ''token_refreshed'' w)
      | Rejected st payload \<Rightarrow>
          (let (s', w') = clearTokens s w
           in (Inl (Error ''Token refresh failed - please re-authenticate''), s', w'))
      | Failed msg \<Rightarrow>
          (let (s', w') = clearTokens s w
           in (Inl (Error ''Token refresh failed - please re-authenticate''), s', w')))"

definition refreshAccessToken :: "AuthManager \<Rightarrow> world \<Rightarrow> bool outcome" where
  "refreshAccessToken s w =
     (if \<not> truthy (refreshToken s) then (Inl (Error ''No refresh token available''), s, w)
      else
        let w1 = axios_send (refresh_request s) w;
            (r, w2) = await_token w1
        in refresh_settled r s w2)"

subsection \<open>getAccessToken, getAuthHeaders\<close>

definition getAccessToken :: "AuthManager \<Rightarrow> world \<Rightarrow> (string option) outcome" where
  "getAccessToken s w =
     (if \<not> isAuthenticated s then
        (Inl (Error ''Not authenticated - please run with --auth flag to authenticate''), s, w)
      else if isTokenExpired s w then
        (case refreshAccessToken s w of
           (Inl e, s', w') \<Rightarrow> (Inl e, s', w')
         | (Inr ok, s', w') \<Rightarrow> (Inr (accessToken s'), s', w'))
      else (Inr (accessToken s), s, w))"



subsection \<open>makeAuthenticatedRequest\<close>




subsection \<open>Calls that overlap\<close>

text \<open>
  JavaScript runs an async function without interruption up to its first \<open>await\<close>;
  only then can another caller run. For
  \<open>getAccessToken\<close> this first stretch is: the test of \<open>isAuthenticated\<close>, the test of
  \<open>isTokenExpired\<close>, and inside \<open>refreshAccessToken\<close> the test of the refresh token and
  the call of \<open>axios.post\<close>, which hands the request over. Nothing in it assigns a field
  of the object, and the class has no field that records a refresh in flight. The result
  of the stretch is a promise: settled already, or pending on the answer of the provider.
\<close>

datatype 'a promise =
  Settled "err + 'a"
  | Pending

definition refreshAccessToken_start :: "AuthManager \<Rightarrow> world \<Rightarrow> bool promise \<times> world" where
  "refreshAccessToken_start s w =
     (if \<not> truthy (refreshToken s) then (Settled (Inl (Error ''No refresh token available'')), w)
      else (Pending, axios_send (refresh_request s) w))"

definition getAccessToken_start :: "AuthManager \<Rightarrow> world \<Rightarrow> (string option) promise \<times> world" where
  "getAccessToken_start s w =
     (if \<not> isAuthenticated s then
        (Settled (Inl (Error ''Not authenticated - please run with --auth flag to authenticate'')), w)
      else if isTokenExpired s w then
        (case refreshAccessToken_start s w of
           (Settled (Inl e), w') \<Rightarrow> (Settled (Inl e), w')
         | (Settled (Inr ok), w') \<Rightarrow> (Pending, w')
         | (Pending, w') \<Rightarrow> (Pending, w'))
      else (Settled (Inr (accessToken s)), w))"

text \<open>\<open>n\<close> callers that call \<open>getAccessToken\<close> one after the other before any answer of
  the provider has arrived, as \<open>Promise.all\<close> over \<open>n\<close> calls does.\<close>

fun start_calls :: "nat \<Rightarrow> AuthManager \<Rightarrow> world \<Rightarrow> (string option) promise list \<times> world" where
  "start_calls 0 s w = ([], w)"
| "start_calls (Suc n) s w =
     (let (p, w1) = getAccessToken_start s w;
          (ps, w2) = start_calls n s w1
      in (p # ps, w2))"

subsection \<open>Concrete states and worlds\<close>

text \<open>Values on which the theorems below are run: the configuration with the defaults
  of src/config.js, the object as the constructor leaves it when the storage is empty,
  the object after a token was obtained at time 0 with a lifetime of 3600 seconds, and
  worlds in which the clock shows a given time.\<close>

definition example_config :: config where
  "example_config =
     \<lparr>clientId = ''client'', clientSecret = ''secret'',
      callbackUrl = ''http://localhost:3000/callback'',
      authUrl = ''https://developer.api.autodesk.com/authentication/v2''\<rparr>"

definition fresh :: AuthManager where
  "fresh =
     \<lparr>cfg = example_config, accessToken = None, refreshToken = None, tokenExpiry = None,
      isAuthenticated = False, tokenStorage = None\<rparr>"

definition signed_in :: AuthManager where
  "signed_in =
     \<lparr>cfg = example_config, accessToken = Some ''AT1'', refreshToken = Some ''RT1'',
      tokenExpiry = Some 3300000, isAuthenticated = True,
      tokenStorage =
        Some \<lparr>stored_accessToken = Some ''AT1'', stored_refreshToken = Some ''RT1'',
              expiresAt = 3300000\<rparr>\<rparr>"

definition quiet :: "int \<Rightarrow> world" where
  "quiet t = \<lparr>clock = t, token_endpoint = [], api = [], sent = [], emitted = []\<rparr>"

definition answering :: "int \<Rightarrow> (nat \<times> tokenData reply) list \<Rightarrow> (nat \<times> api_response reply) list \<Rightarrow> world" where
  "answering t ts as = \<lparr>clock = t, token_endpoint = ts, api = as, sent = [], emitted = []\<rparr>"

definition td1 :: tokenData where
  "td1 = \<lparr>access_token = Some ''AT1'', refresh_token = Some ''RT1'', expires_in = Some 3600\<rparr>"

definition td2 :: tokenData where
  "td2 = \<lparr>access_token = Some ''AT2'', refresh_token = None, expires_in = Some 3600\<rparr>"

definition td_short :: tokenData where
  "td_short = \<lparr>access_token = Some ''AT2'', refresh_token = None, expires_in = Some 300\<rparr>"

definition td_no_ttl :: tokenData where
  "td_no_ttl = \<lparr>access_token = Some ''AT2'', refresh_token = None, expires_in = None\<rparr>"

definition get_issues :: options where
  "get_issues =
     \<lparr>req_method = ''GET'', req_url = ''https://developer.api.autodesk.com/issues'',
      req_headers = [], req_body = []\<rparr>"

definition ok_response :: api_response where
  "ok_response = \<lparr>resp_status = 200, resp_data = ''[]''\<rparr>"

section \<open>Properties\<close>

lemmas example_defs = example_config_def fresh_def signed_in_def quiet_def answering_def
  td1_def td2_def td_short_def td_no_ttl_def get_issues_def ok_response_def

lemmas field_defs = saveTokens_def storage_saveTokens_def storage_getTokens_def
  storage_clearTokens_def js_or_def num_or_def truthy_def isTokenExpired_def clearTokens_def
  emit_def axios_send_def await_token_def await_api_def

subsection \<open>Expiry\<close>



text \<open>
  C10. When the response has no \<open>expires_in\<close>, or has 0 there, \<open>saveTokens\<close> takes 3600
  seconds: the expiry, in memory and in the stored record, is the time of saving plus
  3300 seconds, and the token is not expired at the time of saving. \<open>saveTokens\<close> has
  no failing branch.
\<close>

theorem default_ttl:
  assumes "expires_in td = None \<or> expires_in td = Some 0"
  shows "tokenExpiry (saveTokens td s w) = Some (clock w + 3300 * 1000)
         \<and> map_option expiresAt (storage_getTokens (saveTokens td s w))
             = Some (clock w + 3300 * 1000)
         \<and> \<not> isTokenExpired (saveTokens td s w) w"
  using assms by (auto simp add: field_defs Let_def)

theorem default_ttl_witness:
  "(expires_in td_no_ttl = None \<or> expires_in td_no_ttl = Some 0)
   \<and> tokenExpiry (saveTokens td_no_ttl signed_in (quiet 5000000)) = Some 8300000
   \<and> \<not> isTokenExpired (saveTokens td_no_ttl signed_in (quiet 5000000)) (quiet 5000000)"
  using default_ttl [of td_no_ttl signed_in "quiet 5000000"]
  by (simp add: td_no_ttl_def quiet_def)

subsection \<open>Refresh\<close>

text \<open>
  C6. Without a refresh token (null, undefined or the empty string),
  \<open>refreshAccessToken\<close> throws \<open>Error('No refresh token available')\<close> at once: the
  object and the world are returned as they were, so no request has been sent.
\<close>

theorem no_refresh_token_fails_fast:
  assumes "\<not> truthy (refreshToken s)"
  shows "refreshAccessToken s w = (Inl (Error ''No refresh token available''), s, w)"
  using assms by (simp add: refreshAccessToken_def)

theorem no_refresh_token_fails_fast_witness:
  "\<not> truthy (refreshToken fresh)
   \<and> refreshAccessToken fresh (answering 0 [(40, Resolved td1)] [])
       = (Inl (Error ''No refresh token available''), fresh, answering 0 [(40, Resolved td1)] [])
   \<and> sent (snd (snd (refreshAccessToken fresh (answering 0 [(40, Resolved td1)] [])))) = []"
proof -
  have h: "\<not> truthy (refreshToken fresh)"
    by (simp add: fresh_def truthy_def)
  show ?thesis
    using h no_refresh_token_fails_fast [OF h, of "answering 0 [(40, Resolved td1)] []"]
    by (simp add: answering_def)
qed

text \<open>What a call of \<open>refreshAccessToken\<close> with a refresh token does, by the answer of
  the provider.\<close>

lemma refresh_resolved:
  assumes "truthy (refreshToken s)" and "token_endpoint w = (d, Resolved td) # rest"
  shows "refreshAccessToken s w =
           (Inr True, saveTokens td s (w\<lparr>clock := clock w + int d\<rparr>),
            w\<lparr>clock := clock w + int d, token_endpoint := rest,
              sent := sent w @ [refresh_request s],
              emitted := emitted w @ [''token_refreshed'']\<rparr>)"
  using assms
  by (simp add: refreshAccessToken_def refresh_settled_def axios_send_def await_token_def
      emit_def saveTokens_def Let_def)

lemma refresh_failed:
  assumes "truthy (refreshToken s)" and "token_endpoint w = (d, r) # rest"
    and "r = Failed msg \<or> r = Rejected st payload"
  shows "refreshAccessToken s w =
           (Inl (Error ''Token refresh failed - please re-authenticate''),
            s\<lparr>accessToken := None, refreshToken := None, tokenExpiry := None,
              isAuthenticated := False, tokenStorage := None\<rparr>,
            w\<lparr>clock := clock w + int d, token_endpoint := rest,
              sent := sent w @ [refresh_request s],
              emitted := emitted w @ [''logout'']\<rparr>)"
  using assms
  by (auto simp add: refreshAccessToken_def refresh_settled_def axios_send_def await_token_def
      emit_def clearTokens_def storage_clearTokens_def Let_def)

text \<open>
  C5. \<open>saveTokens\<close> overwrites the access token and the expiry from every response, and
  stores the record it has built. When the response has no \<open>refresh_token\<close>, the refresh
  token stays the one that was there; so a refresh answered without a refresh token
  leaves the object and the storage with the new access token, the new expiry and the
  old refresh token.
\<close>

theorem refresh_token_retained:
  "accessToken (saveTokens td s w) = access_token td
   \<and> tokenExpiry (saveTokens td s w) = Some (clock w + (num_or (expires_in td) 3600 - 300) * 1000)
   \<and> storage_getTokens (saveTokens td s w)
       = Some \<lparr>stored_accessToken = access_token td,
               stored_refreshToken = refreshToken (saveTokens td s w),
               expiresAt = clock w + (num_or (expires_in td) 3600 - 300) * 1000\<rparr>
   \<and> (refresh_token td = None \<longrightarrow> refreshToken (saveTokens td s w) = refreshToken s)
   \<and> (truthy (refreshToken s) \<and> token_endpoint w = (d, Resolved td) # rest
        \<and> refresh_token td = None \<longrightarrow>
        (case refreshAccessToken s w of (res, s', w') \<Rightarrow>
           res = Inr True \<and> accessToken s' = access_token td \<and> refreshToken s' = refreshToken s
           \<and> tokenExpiry s' = Some (clock w + int d + (num_or (expires_in td) 3600 - 300) * 1000)
           \<and> storage_getTokens s'
               = Some \<lparr>stored_accessToken = access_token td,
                       stored_refreshToken = refreshToken s,
                       expiresAt = clock w + int d + (num_or (expires_in td) 3600 - 300) * 1000\<rparr>))"
proof -
  have a: "accessToken (saveTokens td s w) = access_token td" for w
    by (simp add: field_defs Let_def)
  have b: "tokenExpiry (saveTokens td s w)
             = Some (clock w + (num_or (expires_in td) 3600 - 300) * 1000)" for w
    by (simp add: saveTokens_def storage_saveTokens_def Let_def)
  have c: "storage_getTokens (saveTokens td s w)
             = Some \<lparr>stored_accessToken = access_token td,
                     stored_refreshToken = refreshToken (saveTokens td s w),
                     expiresAt = clock w + (num_or (expires_in td) 3600 - 300) * 1000\<rparr>" for w
    by (simp add: saveTokens_def storage_saveTokens_def storage_getTokens_def Let_def)
  have e: "refresh_token td = None \<Longrightarrow> refreshToken (saveTokens td s w) = refreshToken s" for w
    by (simp add: saveTokens_def storage_saveTokens_def js_or_def truthy_def Let_def)
  show ?thesis
    using a [of w] b [of w] c [of w] e [of w]
    by (auto simp add: refresh_resolved a b c e)
qed

theorem refresh_token_retained_witness:
  "truthy (refreshToken signed_in)
   \<and> token_endpoint (answering 3300000 [(80, Resolved td2)] []) = (80, Resolved td2) # []
   \<and> refresh_token td2 = None
   \<and> (case refreshAccessToken signed_in (answering 3300000 [(80, Resolved td2)] []) of
        (res, s', w') \<Rightarrow>
          res = Inr True \<and> accessToken s' = Some ''AT2'' \<and> refreshToken s' = Some ''RT1''
          \<and> tokenExpiry s' = Some 6600080)
   \<and> (case handleCallback ''abc123'' fresh
              (answering 0 [(0, Resolved td1), (80, Resolved td2)] []) of
        (r1, s1, w1) \<Rightarrow>
          fst (getAccessToken s1 w1) = Inr (Some ''AT1'')
          \<and> (case getAccessToken s1 (w1\<lparr>clock := 3300000\<rparr>) of
               (r2, s2, w2) \<Rightarrow>
                 r2 = Inr (Some ''AT2'') \<and> accessToken s2 = Some ''AT2''
                 \<and> refreshToken s2 = Some ''RT1''
                 \<and> map_option stored_refreshToken (storage_getTokens s2) = Some (Some ''RT1'')))"
proof -
  have scenario:
    "(case handleCallback ''abc123'' fresh
              (answering 0 [(0, Resolved td1), (80, Resolved td2)] []) of
        (r1, s1, w1) \<Rightarrow>
          fst (getAccessToken s1 w1) = Inr (Some ''AT1'')
          \<and> (case getAccessToken s1 (w1\<lparr>clock := 3300000\<rparr>) of
               (r2, s2, w2) \<Rightarrow>
                 r2 = Inr (Some ''AT2'') \<and> accessToken s2 = Some ''AT2''
                 \<and> refreshToken s2 = Some ''RT1''
                 \<and> map_option stored_refreshToken (storage_getTokens s2) = Some (Some ''RT1'')))"
    by (simp add: handleCallback_def getAccessToken_def refreshAccessToken_def
        refresh_settled_def field_defs example_defs Let_def)
  let ?W = "answering 3300000 [(80, Resolved td2)] []"
  have h1: "truthy (refreshToken signed_in)"
    by (simp add: signed_in_def truthy_def)
  have h2: "token_endpoint ?W = (80, Resolved td2) # []"
    by (simp add: answering_def)
  have h3: "refresh_token td2 = None"
    by (simp add: td2_def)
  obtain res s' w' where eq: "refreshAccessToken signed_in ?W = (res, s', w')"
    by (metis prod_cases3)
  have "res = Inr True \<and> accessToken s' = access_token td2
        \<and> refreshToken s' = refreshToken signed_in
        \<and> tokenExpiry s' = Some (clock ?W + int 80 + (num_or (expires_in td2) 3600 - 300) * 1000)"
    using refresh_token_retained [of td2 signed_in ?W 80 "[]"] h1 h2 h3 eq by simp
  then have concrete:
    "res = Inr True \<and> accessToken s' = Some ''AT2'' \<and> refreshToken s' = Some ''RT1''
     \<and> tokenExpiry s' = Some 6600080"
    by (simp add: td2_def signed_in_def answering_def num_or_def)
  show ?thesis
    unfolding eq using h1 h2 h3 scenario concrete by simp
qed

text \<open>
  C7. When the provider rejects the refresh request (with \<open>invalid_grant\<close> or any
  other body, under any status), \<open>refreshAccessToken\<close> throws, the four fields are
  cleared and the storage is empty. One request was sent, the refresh. A call of
  \<open>getAccessToken\<close> after that throws \<open>Error('Not authenticated ...')\<close> and leaves the
  world as it finds it: it sends nothing.
\<close>

theorem revocation_clears_state:
  assumes "truthy (refreshToken s)" and "token_endpoint w = (d, Rejected st payload) # rest"
  shows "case refreshAccessToken s w of (res, s', w') \<Rightarrow>
           res = Inl (Error ''Token refresh failed - please re-authenticate'')
           \<and> storage_getTokens s' = None
           \<and> accessToken s' = None \<and> refreshToken s' = None \<and> tokenExpiry s' = None
           \<and> \<not> isAuthenticated s'
           \<and> sent w' = sent w @ [refresh_request s]
           \<and> (\<forall>w''. getAccessToken s' w'' =
                 (Inl (Error ''Not authenticated - please run with --auth flag to authenticate''),
                  s', w''))"
proof -
  have "Rejected st payload = Failed [] \<or> Rejected st payload = Rejected st payload"
    by simp
  from refresh_failed [OF assms(1) assms(2) this]
  show ?thesis
    by (simp add: storage_getTokens_def getAccessToken_def)
qed

theorem revocation_clears_state_witness:
  "truthy (refreshToken signed_in)
   \<and> token_endpoint (answering 9000000 [(60, Rejected 400 ''invalid_grant'')] [])
       = (60, Rejected 400 ''invalid_grant'') # []
   \<and> (case refreshAccessToken signed_in
             (answering 9000000 [(60, Rejected 400 ''invalid_grant'')] []) of
        (res, s', w') \<Rightarrow>
          res = Inl (Error ''Token refresh failed - please re-authenticate'')
          \<and> storage_getTokens s' = None \<and> refreshToken s' = None
          \<and> length (sent w') = 1
          \<and> getAccessToken s' w' =
               (Inl (Error ''Not authenticated - please run with --auth flag to authenticate''),
                s', w'))"
proof -
  let ?W = "answering 9000000 [(60, Rejected 400 ''invalid_grant'')] []"
  have h1: "truthy (refreshToken signed_in)"
    by (simp add: signed_in_def truthy_def)
  have h2: "token_endpoint ?W = (60, Rejected 400 ''invalid_grant'') # []"
    by (simp add: answering_def)
  obtain res s' w' where eq: "refreshAccessToken signed_in ?W = (res, s', w')"
    by (metis prod_cases3)
  have "res = Inl (Error ''Token refresh failed - please re-authenticate'')
        \<and> storage_getTokens s' = None \<and> refreshToken s' = None
        \<and> sent w' = sent ?W @ [refresh_request signed_in]
        \<and> getAccessToken s' w' =
             (Inl (Error ''Not authenticated - please run with --auth flag to authenticate''),
              s', w')"
    using revocation_clears_state [OF h1 h2] eq by simp
  then show ?thesis
    unfolding eq using h1 h2 by (simp add: answering_def)
qed

text \<open>
  C2, as the spec states it, fails: a refresh that times out, or that the provider
  answers with 503, clears the fields and the storage just as a rejected grant does.
\<close>

theorem transient_failure_clears_tokens:
  "storage_getTokens signed_in
     = Some \<lparr>stored_accessToken = Some ''AT1'', stored_refreshToken = Some ''RT1'',
             expiresAt = 3300000\<rparr>
   \<and> (case refreshAccessToken signed_in (answering 9000000 [(30000, Failed ''ETIMEDOUT'')] []) of
        (res, s', w') \<Rightarrow>
          res = Inl (Error ''Token refresh failed - please re-authenticate'')
          \<and> s' \<noteq> signed_in
          \<and> accessToken s' = None \<and> refreshToken s' = None \<and> tokenExpiry s' = None
          \<and> storage_getTokens s' = None)
   \<and> (case refreshAccessToken signed_in
             (answering 9000000 [(15, Rejected 503 ''Service Unavailable'')] []) of
        (res, s', w') \<Rightarrow>
          res = Inl (Error ''Token refresh failed - please re-authenticate'')
          \<and> s' \<noteq> signed_in
          \<and> accessToken s' = None \<and> refreshToken s' = None \<and> tokenExpiry s' = None
          \<and> storage_getTokens s' = None)"
  by (simp add: refreshAccessToken_def refresh_settled_def field_defs example_defs Let_def)

text \<open>
  C2, amended. Whenever the refresh request fails, without a response or with a
  response of any status, the catch block of \<open>refreshAccessToken\<close> clears the four
  fields and the storage, emits \<open>logout\<close> and throws
  \<open>Error('Token refresh failed - please re-authenticate')\<close>. The error does not say
  whether the failure was transient.
\<close>

theorem failed_refresh_clears_tokens:
  assumes "truthy (refreshToken s)" and "token_endpoint w = (d, r) # rest"
    and "r = Failed msg \<or> r = Rejected st payload"
  shows "case refreshAccessToken s w of (res, s', w') \<Rightarrow>
           res = Inl (Error ''Token refresh failed - please re-authenticate'')
           \<and> accessToken s' = None \<and> refreshToken s' = None \<and> tokenExpiry s' = None
           \<and> \<not> isAuthenticated s' \<and> storage_getTokens s' = None
           \<and> sent w' = sent w @ [refresh_request s]
           \<and> emitted w' = emitted w @ [''logout'']"
  using refresh_failed [OF assms] by (simp add: storage_getTokens_def)

theorem failed_refresh_clears_tokens_witness:
  "truthy (refreshToken signed_in)
   \<and> token_endpoint (answering 9000000 [(15, Rejected 503 ''Service Unavailable'')] [])
       = (15, Rejected 503 ''Service Unavailable'') # []
   \<and> (Rejected 503 ''Service Unavailable'' = Failed ''ETIMEDOUT''
        \<or> (Rejected 503 ''Service Unavailable'' :: tokenData reply)
            = Rejected 503 ''Service Unavailable'')
   \<and> (case refreshAccessToken signed_in
             (answering 9000000 [(15, Rejected 503 ''Service Unavailable'')] []) of
        (res, s', w') \<Rightarrow>
          res = Inl (Error ''Token refresh failed - please re-authenticate'')
          \<and> refreshToken s' = None \<and> storage_getTokens s' = None
          \<and> emitted w' = [''logout''])"
proof -
  let ?W = "answering 9000000 [(15, Rejected 503 ''Service Unavailable'')] []"
  have h1: "truthy (refreshToken signed_in)"
    by (simp add: signed_in_def truthy_def)
  have h2: "token_endpoint ?W = (15, Rejected 503 ''Service Unavailable'') # []"
    by (simp add: answering_def)
  have h3: "(Rejected 503 ''Service Unavailable'' :: tokenData reply) = Failed ''ETIMEDOUT''
            \<or> (Rejected 503 ''Service Unavailable'' :: tokenData reply)
                = Rejected 503 ''Service Unavailable''"
    by simp
  obtain res s' w' where eq: "refreshAccessToken signed_in ?W = (res, s', w')"
    by (metis prod_cases3)
  have "res = Inl (Error ''Token refresh failed - please re-authenticate'')
        \<and> refreshToken s' = None \<and> storage_getTokens s' = None
        \<and> emitted w' = emitted ?W @ [''logout'']"
    using failed_refresh_clears_tokens [OF h1 h2 h3] eq by simp
  then show ?thesis
    unfolding eq using h1 h2 by (simp add: answering_def)
qed

subsection \<open>getAccessToken\<close>

text \<open>
  C8. \<open>getAccessToken\<close> has three cases. When the object is not authenticated (no
  token record was saved or loaded, or it was cleared), it throws
  \<open>Error('Not authenticated ...')\<close> and touches nothing. When the expiry lies in the
  future, it returns the access token it holds and touches nothing. When the token is
  expired, it calls \<open>refreshAccessToken\<close> first: an error of the refresh is passed on,
  and after a refresh that went through the access token returned is the one the object
  holds then. In particular, when the provider answers the refresh with a token, the
  result is that token and exactly one request, the refresh, was sent.
\<close>

theorem getAccessToken_cases:
  "(\<not> isAuthenticated s \<longrightarrow>
      getAccessToken s w =
        (Inl (Error ''Not authenticated - please run with --auth flag to authenticate''), s, w))
   \<and> (isAuthenticated s \<and> \<not> isTokenExpired s w \<longrightarrow>
        getAccessToken s w = (Inr (accessToken s), s, w))
   \<and> (isAuthenticated s \<and> isTokenExpired s w \<longrightarrow>
        getAccessToken s w =
          (case refreshAccessToken s w of
             (Inl e, s', w') \<Rightarrow> (Inl e, s', w')
           | (Inr ok, s', w') \<Rightarrow> (Inr (accessToken s'), s', w')))
   \<and> (isAuthenticated s \<and> isTokenExpired s w \<and> truthy (refreshToken s)
        \<and> token_endpoint w = (d, Resolved td) # rest \<longrightarrow>
        (case getAccessToken s w of (res, s', w') \<Rightarrow>
           res = Inr (access_token td) \<and> accessToken s' = access_token td
           \<and> sent w' = sent w @ [refresh_request s]
           \<and> token_endpoint w' = rest))"
proof -
  have ok: "accessToken (saveTokens td s v) = access_token td" for v
    by (simp add: saveTokens_def storage_saveTokens_def Let_def)
  show ?thesis
    by (simp add: getAccessToken_def refresh_resolved ok)
qed

theorem getAccessToken_cases_witness:
  "\<not> isAuthenticated fresh
   \<and> getAccessToken fresh (quiet 0) =
       (Inl (Error ''Not authenticated - please run with --auth flag to authenticate''),
        fresh, quiet 0)
   \<and> isAuthenticated signed_in \<and> \<not> isTokenExpired signed_in (quiet 3299999)
   \<and> getAccessToken signed_in (quiet 3299999) = (Inr (Some ''AT1''), signed_in, quiet 3299999)
   \<and> isTokenExpired signed_in (answering 3300000 [(80, Resolved td2)] [])
   \<and> truthy (refreshToken signed_in)
   \<and> (case getAccessToken signed_in (answering 3300000 [(80, Resolved td2)] []) of
        (res, s', w') \<Rightarrow>
          res = Inr (Some ''AT2'') \<and> accessToken s' = Some ''AT2''
          \<and> sent w' = [refresh_request signed_in] \<and> token_endpoint w' = [])"
proof -
  let ?W = "answering 3300000 [(80, Resolved td2)] []"
  have h1: "\<not> isAuthenticated fresh"
    by (simp add: fresh_def)
  have h2: "isAuthenticated signed_in \<and> \<not> isTokenExpired signed_in (quiet 3299999)"
    by (simp add: signed_in_def quiet_def isTokenExpired_def)
  have h3: "isAuthenticated signed_in \<and> isTokenExpired signed_in ?W
            \<and> truthy (refreshToken signed_in)
            \<and> token_endpoint ?W = (80, Resolved td2) # []"
    by (simp add: signed_in_def answering_def isTokenExpired_def truthy_def)
  have c1: "getAccessToken fresh (quiet 0) =
              (Inl (Error ''Not authenticated - please run with --auth flag to authenticate''),
               fresh, quiet 0)"
    using getAccessToken_cases [of fresh "quiet 0"] h1 by simp
  have c2: "getAccessToken signed_in (quiet 3299999)
              = (Inr (accessToken signed_in), signed_in, quiet 3299999)"
    using getAccessToken_cases [of signed_in "quiet 3299999"] h2 by simp
  obtain res s' w' where eq: "getAccessToken signed_in ?W = (res, s', w')"
    by (metis prod_cases3)
  have "res = Inr (access_token td2) \<and> accessToken s' = access_token td2
        \<and> sent w' = sent ?W @ [refresh_request signed_in] \<and> token_endpoint w' = []"
    using getAccessToken_cases [of signed_in ?W 80 td2 "[]"] h3 eq by simp
  then have c3: "res = Inr (Some ''AT2'') \<and> accessToken s' = Some ''AT2''
        \<and> sent w' = [refresh_request signed_in] \<and> token_endpoint w' = []"
    by (simp add: td2_def answering_def)
  have at: "accessToken signed_in = Some ''AT1''"
    by (simp add: signed_in_def)
  show ?thesis
    unfolding eq using h1 h2 h3 c1 c2 c3 at by simp
qed

subsection \<open>handleCallback\<close>

text \<open>
  C9, as the spec states it, fails in one point: the error does not carry what the
  provider answered. Two rejections with different status and body give the same
  exception, \<open>Error('Authentication failed')\<close>; the body is only written to the log.
\<close>

theorem callback_error_has_no_payload:
  "fst (handleCallback ''abc123'' fresh
          (answering 0 [(35, Rejected 400 ''{error: invalid_grant}'')] []))
     = Inl (Error ''Authentication failed'')
   \<and> fst (handleCallback ''abc123'' fresh
          (answering 0 [(35, Rejected 401 ''{error: invalid_client}'')] []))
     = Inl (Error ''Authentication failed'')"
  by (simp add: handleCallback_def field_defs example_defs Let_def)

text \<open>
  C9, amended. When the provider rejects the exchange of the code, \<open>handleCallback\<close>
  throws \<open>Error('Authentication failed')\<close>; the object is as it was (no field written,
  nothing stored), one request was sent and no event emitted. When the provider answers
  with a token, \<open>handleCallback\<close> returns true, the object is authenticated and holds
  the token and its expiry, the same record is in the storage, and \<open>authenticated\<close>
  was emitted.
\<close>

theorem callback_outcomes:
  "(token_endpoint w = (d, Rejected st payload) # rest \<longrightarrow>
      (case handleCallback code s w of (res, s', w') \<Rightarrow>
         res = Inl (Error ''Authentication failed'') \<and> s' = s
         \<and> sent w' = sent w @ [Post (endpoint_token (cfg s)) (code_form (cfg s) code)]
         \<and> emitted w' = emitted w))
   \<and> (token_endpoint w = (d, Resolved td) # rest \<longrightarrow>
        (case handleCallback code s w of (res, s', w') \<Rightarrow>
           res = Inr True \<and> isAuthenticated s'
           \<and> accessToken s' = access_token td
           \<and> refreshToken s' = js_or (refresh_token td) (refreshToken s)
           \<and> tokenExpiry s' = Some (clock w + int d + (num_or (expires_in td) 3600 - 300) * 1000)
           \<and> storage_getTokens s'
               = Some \<lparr>stored_accessToken = accessToken s', stored_refreshToken = refreshToken s',
                       expiresAt = clock w + int d + (num_or (expires_in td) 3600 - 300) * 1000\<rparr>
           \<and> emitted w' = emitted w @ [''authenticated'']))"
  by (simp add: handleCallback_def saveTokens_def storage_saveTokens_def storage_getTokens_def
      emit_def axios_send_def await_token_def Let_def)

theorem callback_outcomes_witness:
  "token_endpoint (answering 0 [(35, Rejected 400 ''{error: invalid_grant}'')] [])
     = (35, Rejected 400 ''{error: invalid_grant}'') # []
   \<and> (case handleCallback ''abc123'' fresh
             (answering 0 [(35, Rejected 400 ''{error: invalid_grant}'')] []) of
        (res, s', w') \<Rightarrow>
          res = Inl (Error ''Authentication failed'') \<and> s' = fresh
          \<and> \<not> isAuthenticated s' \<and> storage_getTokens s' = None)
   \<and> token_endpoint (answering 0 [(35, Resolved td1)] []) = (35, Resolved td1) # []
   \<and> (case handleCallback ''abc123'' fresh (answering 0 [(35, Resolved td1)] []) of
        (res, s', w') \<Rightarrow>
          res = Inr True \<and> isAuthenticated s' \<and> accessToken s' = Some ''AT1''
          \<and> refreshToken s' = Some ''RT1'' \<and> tokenExpiry s' = Some 3300035
          \<and> storage_getTokens s'
              = Some \<lparr>stored_accessToken = Some ''AT1'', stored_refreshToken = Some ''RT1'',
                      expiresAt = 3300035\<rparr>
          \<and> emitted w' = [''authenticated''])"
proof -
  let ?R = "answering 0 [(35, Rejected 400 ''{error: invalid_grant}'')] []"
  let ?A = "answering 0 [(35, Resolved td1)] []"
  have h1: "token_endpoint ?R = (35, Rejected 400 ''{error: invalid_grant}'') # []"
    by (simp add: answering_def)
  have h2: "token_endpoint ?A = (35, Resolved td1) # []"
    by (simp add: answering_def)
  obtain r1 s1 w1 where e1: "handleCallback ''abc123'' fresh ?R = (r1, s1, w1)"
    by (metis prod_cases3)
  obtain r2 s2 w2 where e2: "handleCallback ''abc123'' fresh ?A = (r2, s2, w2)"
    by (metis prod_cases3)
  have "r1 = Inl (Error ''Authentication failed'') \<and> s1 = fresh"
    using callback_outcomes [where w = ?R and d = 35 and st = 400
        and payload = "''{error: invalid_grant}''" and rest = "[]" and code = "''abc123''"
        and s = fresh]
      h1 e1 by simp
  then have c1: "r1 = Inl (Error ''Authentication failed'') \<and> s1 = fresh
                 \<and> \<not> isAuthenticated s1 \<and> storage_getTokens s1 = None"
    by (simp add: fresh_def storage_getTokens_def)
  have "r2 = Inr True \<and> isAuthenticated s2 \<and> accessToken s2 = access_token td1
        \<and> refreshToken s2 = js_or (refresh_token td1) (refreshToken fresh)
        \<and> tokenExpiry s2 = Some (clock ?A + int 35 + (num_or (expires_in td1) 3600 - 300) * 1000)
        \<and> storage_getTokens s2
            = Some \<lparr>stored_accessToken = accessToken s2, stored_refreshToken = refreshToken s2,
                    expiresAt = clock ?A + int 35 + (num_or (expires_in td1) 3600 - 300) * 1000\<rparr>
        \<and> emitted w2 = emitted ?A @ [''authenticated'']"
    using callback_outcomes [where w = ?A and d = 35 and rest = "[]" and td = td1
        and code = "''abc123''" and s = fresh]
      h2 e2 by simp
  then have c2: "r2 = Inr True \<and> isAuthenticated s2 \<and> accessToken s2 = Some ''AT1''
          \<and> refreshToken s2 = Some ''RT1'' \<and> tokenExpiry s2 = Some 3300035
          \<and> storage_getTokens s2
              = Some \<lparr>stored_accessToken = Some ''AT1'', stored_refreshToken = Some ''RT1'',
                      expiresAt = 3300035\<rparr>
          \<and> emitted w2 = [''authenticated'']"
    by (simp add: td1_def fresh_def answering_def js_or_def truthy_def num_or_def)
  show ?thesis
    unfolding e1 e2 using h1 h2 c1 c2 by (simp add: fresh_def storage_getTokens_def)
qed

subsection \<open>makeAuthenticatedRequest\<close>





subsection \<open>Callers that overlap\<close>

text \<open>The whole of \<open>refreshAccessToken\<close>, and of \<open>getAccessToken\<close>, is its first
  stretch, then the wait for the provider, then the rest: the two functions of the
  first stretch are cut out of the methods, not written beside them.\<close>

lemma refreshAccessToken_by_start:
  "refreshAccessToken s w =
     (case refreshAccessToken_start s w of
        (Settled r, w') \<Rightarrow> (r, s, w')
      | (Pending, w1) \<Rightarrow> (let (r, w2) = await_token w1 in refresh_settled r s w2))"
  by (simp add: refreshAccessToken_def refreshAccessToken_start_def)

lemma getAccessToken_by_start:
  "getAccessToken s w =
     (case getAccessToken_start s w of
        (Settled r, w') \<Rightarrow> (r, s, w')
      | (Pending, w1) \<Rightarrow>
          (let (r, w2) = await_token w1
           in case refresh_settled r s w2 of
                (Inl e, s', w') \<Rightarrow> (Inl e, s', w')
              | (Inr ok, s', w') \<Rightarrow> (Inr (accessToken s'), s', w')))"
  by (simp add: getAccessToken_def getAccessToken_start_def refreshAccessToken_def
      refreshAccessToken_start_def Let_def split: prod.split)

lemma isTokenExpired_axios_send: "isTokenExpired s (axios_send r w) = isTokenExpired s w"
  by (simp add: isTokenExpired_def axios_send_def split: option.split)

text \<open>
  C1, as the spec states it, fails: two callers of \<open>getAccessToken\<close> that find the
  token expired before any answer has come each send a refresh request, with the same
  refresh token.
\<close>

theorem two_callers_two_refreshes:
  "isAuthenticated signed_in \<and> isTokenExpired signed_in (quiet 3300000)
   \<and> start_calls 2 signed_in (quiet 3300000)
       = ([Pending, Pending],
          (quiet 3300000)\<lparr>sent := [refresh_request signed_in, refresh_request signed_in]\<rparr>)
   \<and> length (sent (snd (start_calls 2 signed_in (quiet 3300000)))) = 2"
  by (simp add: numeral_2_eq_2 getAccessToken_start_def refreshAccessToken_start_def
      isTokenExpired_def truthy_def axios_send_def signed_in_def quiet_def Let_def)

text \<open>
  C1, amended. The class does not coalesce refreshes. When the object is
  authenticated, its token is expired and it has a refresh token, each of \<open>n\<close> callers
  of \<open>getAccessToken\<close> that start before any answer has come sends its own refresh
  request and is left pending on it: \<open>n\<close> callers, \<open>n\<close> refresh requests.
\<close>

theorem every_caller_sends_a_refresh:
  assumes "isAuthenticated s" and "isTokenExpired s w" and "truthy (refreshToken s)"
  shows "start_calls n s w =
           (replicate n Pending, w\<lparr>sent := sent w @ replicate n (refresh_request s)\<rparr>)"
  using assms
proof (induction n arbitrary: w)
  case 0
  then show ?case by simp
next
  case (Suc n)
  let ?w1 = "axios_send (refresh_request s) w"
  have st: "getAccessToken_start s w = (Pending, ?w1)"
    using Suc.prems by (simp add: getAccessToken_start_def refreshAccessToken_start_def)
  have ex: "isTokenExpired s ?w1"
    using Suc.prems by (simp add: isTokenExpired_axios_send)
  have "start_calls n s ?w1 =
          (replicate n Pending, ?w1\<lparr>sent := sent ?w1 @ replicate n (refresh_request s)\<rparr>)"
    using Suc.IH [OF Suc.prems(1) ex Suc.prems(3)] .
  then show ?case
    by (simp add: st axios_send_def replicate_app_Cons_same)
qed

theorem every_caller_sends_a_refresh_witness:
  "isAuthenticated signed_in \<and> isTokenExpired signed_in (quiet 3300000)
   \<and> truthy (refreshToken signed_in)
   \<and> sent (snd (start_calls 3 signed_in (quiet 3300000)))
       = [refresh_request signed_in, refresh_request signed_in, refresh_request signed_in]"
proof -
  have h1: "isAuthenticated signed_in"
    by (simp add: signed_in_def)
  have h2: "isTokenExpired signed_in (quiet 3300000)"
    by (simp add: signed_in_def quiet_def isTokenExpired_def)
  have h3: "truthy (refreshToken signed_in)"
    by (simp add: signed_in_def truthy_def)
  have three: "replicate 3 x = [x, x, x]" for x :: request
    by (simp add: numeral_3_eq_3)
  show ?thesis
    using h1 h2 h3 every_caller_sends_a_refresh [OF h1 h2 h3, of 3]
    by (simp add: three quiet_def)
qed

end
